theory Spec2Isabelle
  imports Main "HOL-Library.Char_ord" "HOL-Library.List_Lexorder"
begin

section \<open>Go strings and the string functions the generator calls\<close>

text \<open>
  A Go string is a sequence of bytes; it is modelled as \<open>string\<close> (a \<open>char list\<close>), and
  the comparison \<open><\<close> of two Go strings is the lexicographic order of their bytes
  (the order of \<open>HOL-Library.List_Lexorder\<close> over \<open>HOL-Library.Char_ord\<close>).

  The functions of the packages \<^verbatim>\<open>strings\<close>, \<^verbatim>\<open>unicode\<close> and \<^verbatim>\<open>path\<close> are not part of the
  repository. They are written out here as the Go library documents them, over ASCII text:
  \<^verbatim>\<open>unicode.IsUpper\<close>, \<^verbatim>\<open>unicode.IsLetter\<close>, \<^verbatim>\<open>unicode.IsSpace\<close> and \<^verbatim>\<open>strings.ToLower\<close> are
  the ASCII classes and the ASCII case mapping. Go decodes bytes from \<open>0x80\<close> on as UTF-8
  and consults the Unicode tables; such text is outside this development.
\<close>

definition nl :: string where
  "nl = [CHR 0x0A]"

definition tabs :: "nat \<Rightarrow> string" where
  "tabs n = replicate n (CHR 0x09)"

definition isUpper :: "char \<Rightarrow> bool" where
  "isUpper c = (let n = (of_char c :: nat) in 65 \<le> n \<and> n \<le> 90)"

definition isLower :: "char \<Rightarrow> bool" where
  "isLower c = (let n = (of_char c :: nat) in 97 \<le> n \<and> n \<le> 122)"

definition isLetter :: "char \<Rightarrow> bool" where
  "isLetter c = (isUpper c \<or> isLower c)"

definition isSpace :: "char \<Rightarrow> bool" where
  "isSpace c = (let n = (of_char c :: nat) in (9 \<le> n \<and> n \<le> 13) \<or> n = 32)"

definition toLowerRune :: "char \<Rightarrow> char" where
  "toLowerRune c = (if isUpper c then char_of ((of_char c :: nat) + 32) else c)"

definition ToLower :: "string \<Rightarrow> string" where
  "ToLower s = map toLowerRune s"

text \<open>\<^verbatim>\<open>strings.IndexFunc(s, f)\<close>: the index of the first character satisfying \<open>f\<close>, or \<open>-1\<close>.\<close>

fun indexFrom :: "(char \<Rightarrow> bool) \<Rightarrow> string \<Rightarrow> int \<Rightarrow> int" where
  "indexFrom f [] i = - 1"
| "indexFrom f (c # cs) i = (if f c then i else indexFrom f cs (i + 1))"

definition IndexFunc :: "string \<Rightarrow> (char \<Rightarrow> bool) \<Rightarrow> int" where
  "IndexFunc s f = indexFrom f s 0"

section \<open>Parameter names: \<^verbatim>\<open>toLowerCamel\<close> and \<^verbatim>\<open>commonInitialisms\<close>\<close>

text \<open>
  The table \<^verbatim>\<open>commonInitialisms\<close> is a \<^verbatim>\<open>map[string]bool\<close>; reading a key that is absent
  gives \<^verbatim>\<open>false\<close>. Its keys are the ones of the source, in the source's spelling.
\<close>

definition commonInitialismsKeys :: "string list" where
  "commonInitialismsKeys =
    [''acl'', ''api'', ''ascii'', ''cpu'', ''css'', ''dns'', ''eof'', ''guid'', ''html'',
     ''http'', ''https'', ''id'', ''ip'', ''json'', ''lhs'', ''qps'', ''ram'', ''rhs'',
     ''rpc'', ''sla'', ''smtp'', ''sql'', ''ssh'', ''tcp'', ''tls'', ''ttl'', ''udp'',
     ''ui'', ''uid'', ''uuid'', ''uri'', ''url'', ''utf8'', ''vm'', ''xml'', ''xmpp'',
     ''xsrf'', ''xss'']"

definition commonInitialisms :: "string \<Rightarrow> bool" where
  "commonInitialisms s = (s \<in> set commonInitialismsKeys)"

definition toLowerCamel :: "string \<Rightarrow> string" where
  "toLowerCamel s =
    (if s = [] then s
     else
       let i = IndexFunc s (\<lambda>c. \<not> isUpper c);
           firstNotUpperIndex = (if i = - 1 then int (length s) else i)
       in if commonInitialisms (take (nat firstNotUpperIndex) s)
          then ToLower (take (nat firstNotUpperIndex) s) @ drop (nat firstNotUpperIndex) s
          else ToLower (take 1 s) @ drop 1 s)"

section \<open>Further string functions\<close>

text \<open>\<^verbatim>\<open>strings.HasPrefix\<close>, \<^verbatim>\<open>strings.TrimSpace\<close> and \<^verbatim>\<open>strings.Trim(s, cutset)\<close>.\<close>

definition HasPrefix :: "string \<Rightarrow> string \<Rightarrow> bool" where
  "HasPrefix s pre = (take (length pre) s = pre)"

definition TrimSpace :: "string \<Rightarrow> string" where
  "TrimSpace s = rev (dropWhile isSpace (rev (dropWhile isSpace s)))"

definition Trim :: "string \<Rightarrow> string \<Rightarrow> string" where
  "Trim s cutset =
     rev (dropWhile (\<lambda>c. c \<in> set cutset) (rev (dropWhile (\<lambda>c. c \<in> set cutset) s)))"

text \<open>
  \<^verbatim>\<open>strings.FieldsFunc(s, f)\<close> splits \<open>s\<close> at each run of characters satisfying \<open>f\<close> and
  returns the pieces between the runs, none of them empty; \<^verbatim>\<open>strings.Fields\<close> splits
  around white space (it is \<open>stringsFields\<close> here: \<open>Fields\<close> is the field of the template's
  parameter). The second argument of \<open>fieldsFrom\<close> is the piece being read.
\<close>

fun fieldsFrom :: "(char \<Rightarrow> bool) \<Rightarrow> string \<Rightarrow> string \<Rightarrow> string list" where
  "fieldsFrom f cur [] = (if cur = [] then [] else [cur])"
| "fieldsFrom f cur (c # cs) =
     (if f c then (if cur = [] then fieldsFrom f [] cs else cur # fieldsFrom f [] cs)
      else fieldsFrom f (cur @ [c]) cs)"

definition FieldsFunc :: "string \<Rightarrow> (char \<Rightarrow> bool) \<Rightarrow> string list" where
  "FieldsFunc s f = fieldsFrom f [] s"

definition stringsFields :: "string \<Rightarrow> string list" where
  "stringsFields s = FieldsFunc s isSpace"

text \<open>
  \<^verbatim>\<open>strings.Split\<close> and \<^verbatim>\<open>strings.SplitN\<close>; the generator calls them with a separator of
  one byte (\<^verbatim>\<open>"/"\<close> and \<^verbatim>\<open>"."\<close>) and with \<open>n = 2\<close>, so the separator is a character here and
  the count a natural number. \<^verbatim>\<open>SplitN\<close> returns at most \<open>n\<close> pieces, the last one the
  remainder left unsplit, and no piece for \<open>n = 0\<close>.
\<close>

fun splitFrom :: "char \<Rightarrow> string \<Rightarrow> string \<Rightarrow> string list" where
  "splitFrom sep cur [] = [cur]"
| "splitFrom sep cur (c # cs) =
     (if c = sep then cur # splitFrom sep [] cs else splitFrom sep (cur @ [c]) cs)"

definition Split :: "string \<Rightarrow> char \<Rightarrow> string list" where
  "Split s sep = splitFrom sep [] s"

fun splitNFrom :: "char \<Rightarrow> nat \<Rightarrow> string \<Rightarrow> string \<Rightarrow> string list" where
  "splitNFrom sep n cur [] = [cur]"
| "splitNFrom sep n cur (c # cs) =
     (if n \<le> 1 then [cur @ c # cs]
      else if c = sep then cur # splitNFrom sep (n - 1) [] cs
      else splitNFrom sep n (cur @ [c]) cs)"

definition SplitN :: "string \<Rightarrow> char \<Rightarrow> nat \<Rightarrow> string list" where
  "SplitN s sep n = (if n = 0 then [] else splitNFrom sep n [] s)"

text \<open>\<^verbatim>\<open>strings.Contains(s, substr)\<close>.\<close>

fun Contains :: "string \<Rightarrow> string \<Rightarrow> bool" where
  "Contains [] substr = (substr = [])"
| "Contains (c # cs) substr = (HasPrefix (c # cs) substr \<or> Contains cs substr)"

text \<open>
  \<^verbatim>\<open>path.Base\<close>: the last element of a slash-separated path. Trailing slashes are removed
  first; the empty path gives \<^verbatim>\<open>"."\<close> and a path of slashes only gives \<^verbatim>\<open>"/"\<close>.
\<close>

definition Base :: "string \<Rightarrow> string" where
  "Base p =
    (if p = [] then ''.''
     else
       let p1 = rev (dropWhile (\<lambda>c. c = CHR ''/'') (rev p));
           p2 = rev (takeWhile (\<lambda>c. c \<noteq> CHR ''/'') (rev p1))
       in if p2 = [] then ''/'' else p2)"

section \<open>Struct tags: \<^verbatim>\<open>reflect.StructTag.Lookup\<close>\<close>

text \<open>
  A Go \<^verbatim>\<open>error\<close> is an interface value; the model keeps its message.
\<close>

datatype error = Error string

text \<open>
  \<^verbatim>\<open>Lookup\<close> reads the tag as a sequence of \<^verbatim>\<open>key:"value"\<close> pairs separated by spaces. For
  each pair it skips the leading spaces, scans the key up to the colon (a space, a quote
  or a control character ends the scan), scans the quoted value (a backslash escapes the
  next byte), and, when the key is the one asked for, returns the value unquoted by
  \<^verbatim>\<open>strconv.Unquote\<close>. Any malformed pair ends the search with "not found".
  \<^verbatim>\<open>strconv.Unquote\<close> is a parameter: the generator does not depend on how escapes are
  decoded.
\<close>

definition keyChar :: "char \<Rightarrow> bool" where
  "keyChar c = (let n = (of_char c :: nat) in 32 < n \<and> n \<noteq> 58 \<and> n \<noteq> 34 \<and> n \<noteq> 127)"

fun quotedEnd :: "string \<Rightarrow> nat \<Rightarrow> nat" where
  "quotedEnd [] i = i"
| "quotedEnd [c] i = (if c = CHR 0x22 then i else if c = CHR 0x5C then i + 2 else i + 1)"
| "quotedEnd (c # d # cs) i =
     (if c = CHR 0x22 then i
      else if c = CHR 0x5C then quotedEnd cs (i + 2)
      else quotedEnd (d # cs) (i + 1))"

function Lookup :: "(string \<Rightarrow> error + string) \<Rightarrow> string \<Rightarrow> string \<Rightarrow> string option" where
  "Lookup unquote tag key =
    (if tag = [] then None
     else
       let tag1 = dropWhile (\<lambda>c. c = CHR '' '') tag in
       if tag1 = [] then None
       else
         let i = length (takeWhile keyChar tag1) in
         if i = 0 \<or> length tag1 \<le> i + 1 \<or> tag1 ! i \<noteq> CHR '':'' \<or> tag1 ! (i + 1) \<noteq> CHR 0x22
         then None
         else
           let name = take i tag1;
               tag2 = drop (i + 1) tag1;
               j = quotedEnd (drop 1 tag2) 1
           in if length tag2 \<le> j then None
              else
                let qvalue = take (j + 1) tag2;
                    tag3 = drop (j + 1) tag2
                in if key = name
                   then (case unquote qvalue of Inl err \<Rightarrow> None | Inr v \<Rightarrow> Some v)
                   else Lookup unquote tag3 key)"
  by pat_completeness auto
termination
proof (relation "measure (\<lambda>(unquote, tag, key). length tag)")
  show "wf (measure (\<lambda>(unquote, tag, key). length tag))"
    by simp
next
  fix unquote :: "string \<Rightarrow> error + string" and tag key :: string
    and tag1 i name tag2 j qvalue tag3
  assume "tag1 = dropWhile (\<lambda>c. c = CHR '' '') tag"
    and "tag2 = drop (i + 1) tag1"
    and "\<not> length tag2 \<le> j"
    and "tag3 = drop (j + 1) tag2"
  moreover have "length (dropWhile (\<lambda>c. c = CHR '' '') tag) \<le> length tag"
    by (rule length_dropWhile_le)
  ultimately show "((unquote, tag3, key), (unquote, tag, key))
      \<in> measure (\<lambda>(unquote, tag, key). length tag)"
    by simp
qed

section \<open>The syntax tree\<close>

text \<open>
  The part of \<^verbatim>\<open>go/ast\<close> that \<^verbatim>\<open>Run\<close> inspects. An expression is one of the node kinds
  below; the generator tells \<^verbatim>\<open>*ast.StructType\<close> (the declared type of a type
  specification) and \<^verbatim>\<open>*ast.Ident\<close> (the type of an embedded field) from every other kind,
  and hands all of them to the printer. A field has its names (none for an embedded
  field), its type and its tag (the literal as it stands in the source, with its quotes).
\<close>

datatype expr =
    Ident string
  | BasicLit string
  | SelectorExpr expr string
  | StarExpr expr
  | ArrayType "expr option" expr
  | MapType expr expr
  | StructType "field list"
and field = Field (fieldNames: "string list") (fieldType: expr) (fieldTag: "string option")

datatype importSpec = ImportSpec (ImportName: "string option") (PathValue: string)

datatype token = token_IMPORT | token_CONST | token_TYPE | token_VAR

datatype spec = TypeSpec string expr | ValueSpec | ImportDecl importSpec

datatype decl =
    GenDecl (Doc: "string list option") (Tok: token) (Specs: "spec list")
  | FuncDecl
  | BadDecl

record File =
  Decls :: "decl list"
  Imports :: "importSpec list"

text \<open>
  A package has a name and a map from file names to files. The map is an association
  list here; \<^verbatim>\<open>parser.ParseDir\<close> gives every file name once.
\<close>

datatype package = Package (pkgName: string) (pkgFiles: "(string \<times> File) list")

fun exprKind :: "expr \<Rightarrow> string" where
  "exprKind (Ident n) = ''*ast.Ident''"
| "exprKind (BasicLit v) = ''*ast.BasicLit''"
| "exprKind (SelectorExpr x sel) = ''*ast.SelectorExpr''"
| "exprKind (StarExpr x) = ''*ast.StarExpr''"
| "exprKind (ArrayType len elt) = ''*ast.ArrayType''"
| "exprKind (MapType k v) = ''*ast.MapType''"
| "exprKind (StructType fs) = ''*ast.StructType''"

fun specKind :: "spec \<Rightarrow> string" where
  "specKind (TypeSpec n t) = ''*ast.TypeSpec''"
| "specKind ValueSpec = ''*ast.ValueSpec''"
| "specKind (ImportDecl i) = ''*ast.ImportSpec''"

section \<open>Results, panics and the library\<close>

text \<open>
  A step of \<^verbatim>\<open>Run\<close> goes on (\<open>Ok\<close>), makes \<^verbatim>\<open>Run\<close> return an error value (\<open>Err\<close>), or
  panics (\<open>Panic\<close>). A panic carries the error given to \<^verbatim>\<open>panic\<close>, or it is the run-time
  panic of a failed type assertion \<^verbatim>\<open>x.(T)\<close>, with the dynamic type of \<open>x\<close> and \<open>T\<close>.
\<close>

datatype panic = PanicError error | InterfaceConversion string string

datatype 'a result = Ok 'a | Err error | Panic panic

definition bind :: "'a result \<Rightarrow> ('a \<Rightarrow> 'b result) \<Rightarrow> 'b result" where
  "bind r f = (case r of Ok x \<Rightarrow> f x | Err e \<Rightarrow> Err e | Panic p \<Rightarrow> Panic p)"

text \<open>A \<^verbatim>\<open>for ... range\<close> loop whose body may return or panic; \<^verbatim>\<open>continue\<close> is \<open>Ok\<close> of the state.\<close>

fun forEach :: "('a \<Rightarrow> 's \<Rightarrow> 's result) \<Rightarrow> 'a list \<Rightarrow> 's \<Rightarrow> 's result" where
  "forEach step [] s = Ok s"
| "forEach step (x # xs) s = bind (step x s) (forEach step xs)"

record FieldInfo =
  Type :: string
  Name :: string
  ConstValue :: string

record tmplParam =
  StructName :: string
  Fields :: "FieldInfo list"
  Pointer :: bool

text \<open>The \<^verbatim>\<open>map[string]string\<close> given to the template of the file, by its four keys.\<close>

record outParam =
  GeneratorName :: string
  PackageName :: string
  ImportPackages :: string
  Body :: string

text \<open>
  What \<^verbatim>\<open>Run\<close> calls outside the repository, and whose failure it handles:
  \<^item> \<open>Fprint\<close> and \<open>FprintImport\<close>: \<^verbatim>\<open>printer.Fprint\<close> into a buffer, on a field type and on
    an import specification: the text printed, or an error;
  \<^item> \<open>Unquote\<close>: \<^verbatim>\<open>strconv.Unquote\<close>;
  \<^item> \<open>ParseConstructor\<close> and \<open>ParseOut\<close>: \<^verbatim>\<open>Parse\<close> on the text of the two templates: an
    error, or the template, which is its \<^verbatim>\<open>Execute\<close>: the text written for a parameter, or
    an error;
  \<^item> \<open>FormatSource\<close>: \<^verbatim>\<open>format.Source\<close>.
\<close>

type_synonym 'p template = "'p \<Rightarrow> error + string"

record lib =
  Fprint :: "expr \<Rightarrow> error + string"
  FprintImport :: "importSpec \<Rightarrow> error + string"
  Unquote :: "string \<Rightarrow> error + string"
  ParseConstructor :: "error + tmplParam template"
  ParseOut :: "error + outParam template"
  FormatSource :: "string \<Rightarrow> error + string"

text \<open>\<^verbatim>\<open>template.Must\<close> panics with the error of \<^verbatim>\<open>Parse\<close>.\<close>

definition Must :: "error + 'a \<Rightarrow> 'a result" where
  "Must r = (case r of Inl err \<Rightarrow> Panic (PanicError err) | Inr t \<Rightarrow> Ok t)"

section \<open>The two templates\<close>

text \<open>
  What \<^verbatim>\<open>text/template\<close> writes for the template \<^verbatim>\<open>constructor\<close>. The template's text starts
  with a line break and six tabs. An action written \<^verbatim>\<open>{{-\<close> removes the white space before
  it, so a \<^verbatim>\<open>range\<close> writes nothing between two fields; \<^verbatim>\<open>if .ConstValue\<close> holds for a
  string that is not empty, \<^verbatim>\<open>not .ConstValue\<close> for the empty one; a string is written as it
  is, with no escaping.
\<close>

definition paramText :: "FieldInfo \<Rightarrow> string" where
  "paramText f =
    (if ConstValue f = [] then nl @ tabs 9 @ toLowerCamel (Name f) @ '' '' @ Type f @ '',''
     else [])"

definition initText :: "FieldInfo \<Rightarrow> string" where
  "initText f =
    (if ConstValue f \<noteq> [] then nl @ tabs 10 @ Name f @ '': '' @ ConstValue f @ '',''
     else nl @ tabs 10 @ Name f @ '': '' @ toLowerCamel (Name f) @ '','')"

definition constructorText :: "tmplParam \<Rightarrow> string" where
  "constructorText p =
     nl @ tabs 6 @ ''func New'' @ StructName p @ ''(''
     @ concat (map paramText (Fields p))
     @ nl @ tabs 6 @ '') '' @ (if Pointer p then ''*'' else []) @ StructName p @ '' {''
     @ nl @ tabs 7 @ ''return '' @ (if Pointer p then ''&'' else []) @ StructName p @ ''{''
     @ concat (map initText (Fields p))
     @ nl @ tabs 7 @ ''}''
     @ nl @ tabs 6 @ ''}''
     @ nl @ tabs 5"

definition outText :: "outParam \<Rightarrow> string" where
  "outText p =
     nl @ tabs 3 @ ''// Code generated by '' @ GeneratorName p @ ''; DO NOT EDIT.'' @ nl
     @ nl @ tabs 3 @ ''package '' @ PackageName p @ nl
     @ nl @ tabs 3 @ ImportPackages p @ nl
     @ nl @ tabs 3 @ Body p
     @ nl @ tabs 2"

section \<open>\<^verbatim>\<open>Run\<close>: the marker, the fields and the imports\<close>

definition commentMarker :: string where
  "commentMarker = ''//genconstructor''"

definition pointerOpts :: string where
  "pointerOpts = ''-p''"

text \<open>
  The loop over the comments of a doc comment: the first comment whose text, trimmed, has
  the marker as a prefix decides; the words of that comment are searched for the pointer
  option, and no later comment is read. The result is \<open>(hasMarker, hasPointerOpts)\<close>.
\<close>

fun scanPointerOpts :: "string list \<Rightarrow> bool" where
  "scanPointerOpts [] = False"
| "scanPointerOpts (s # ss) = (if s = pointerOpts then True else scanPointerOpts ss)"

fun scanDoc :: "string list \<Rightarrow> bool \<times> bool" where
  "scanDoc [] = (False, False)"
| "scanDoc (commentText # comments) =
     (if HasPrefix (TrimSpace commentText) commentMarker
      then (True, scanPointerOpts (stringsFields commentText))
      else scanDoc comments)"

text \<open>
  The loop over the imports of the file, for one package name \<open>ss[0]\<close>: the first import
  whose alias, or for an import with no alias the base of its path, is that name is
  appended to \<open>importPackages\<close>.
\<close>

fun findImport :: "importSpec list \<Rightarrow> string \<Rightarrow> importSpec list \<Rightarrow> importSpec list" where
  "findImport [] ss0 importPackages = importPackages"
| "findImport (imp # imps) ss0 importPackages =
     (case ImportName imp of
        None \<Rightarrow>
          if Base (Trim (PathValue imp) [CHR 0x22]) \<noteq> ss0
          then findImport imps ss0 importPackages
          else importPackages @ [imp]
      | Some name \<Rightarrow>
          if name \<noteq> ss0
          then findImport imps ss0 importPackages
          else importPackages @ [imp])"

fun resolveImports :: "importSpec list \<Rightarrow> string list \<Rightarrow> importSpec list \<Rightarrow> importSpec list" where
  "resolveImports fileImports [] importPackages = importPackages"
| "resolveImports fileImports (s # rest) importPackages =
     (let ss = SplitN s (CHR ''.'') 2
      in if length ss = 2
         then resolveImports fileImports rest (findImport fileImports (ss ! 0) importPackages)
         else resolveImports fileImports rest importPackages)"

definition typeTokens :: "string \<Rightarrow> string list" where
  "typeTokens fieldTypeText = FieldsFunc fieldTypeText (\<lambda>c. \<not> isLetter c \<and> c \<noteq> CHR ''.'')"

text \<open>
  The name of a field: its first name, or for an embedded field the name of its type,
  read by the type assertion \<^verbatim>\<open>field.Type.(*ast.Ident)\<close>.
\<close>

definition fieldName :: "field \<Rightarrow> string result" where
  "fieldName fld =
    (case fieldNames fld of
       n # ns \<Rightarrow> Ok n
     | [] \<Rightarrow>
        (case fieldType fld of
           Ident n \<Rightarrow> Ok n
         | t \<Rightarrow> Panic (InterfaceConversion (exprKind t) ''*ast.Ident'')))"

text \<open>
  The value of the key \<^verbatim>\<open>required\<close> in the tag of a field, when the field has a tag and the
  tag has the key. The back quotes of the tag literal are trimmed before the lookup.
\<close>

definition requiredValue :: "lib \<Rightarrow> field \<Rightarrow> string option" where
  "requiredValue lib fld =
    (case fieldTag fld of
       None \<Rightarrow> None
     | Some tagValue \<Rightarrow> Lookup (Unquote lib) (Trim tagValue ''`'') ''required'')"

text \<open>
  The body of the loop over the fields of a structure. The state is \<open>fieldInfos\<close> and
  \<open>importPackages\<close>. A field with no tag, or with no key \<^verbatim>\<open>required\<close> in its tag, is passed
  over; the type is printed before the name is read.
\<close>

definition fieldStep ::
  "lib \<Rightarrow> importSpec list \<Rightarrow> field \<Rightarrow> FieldInfo list \<times> importSpec list
     \<Rightarrow> (FieldInfo list \<times> importSpec list) result" where
  "fieldStep lib fileImports fld st =
    (case requiredValue lib fld of
       None \<Rightarrow> Ok st
     | Some constValue \<Rightarrow>
        (case Fprint lib (fieldType fld) of
           Inl err \<Rightarrow> Err err
         | Inr fieldTypeText \<Rightarrow>
             bind (fieldName fld) (\<lambda>name.
               Ok (fst st @ [\<lparr>Type = fieldTypeText, Name = name, ConstValue = constValue\<rparr>],
                   resolveImports fileImports (typeTokens fieldTypeText) (snd st)))))"

text \<open>
  The body of the loop over the specifications of a marked declaration. The state is the
  text of \<open>body\<close> and \<open>importPackages\<close>. The template is parsed, and \<^verbatim>\<open>template.Must\<close>
  applied, before it is executed; an error of \<^verbatim>\<open>Execute\<close> is given to \<^verbatim>\<open>panic\<close>.
\<close>

definition executeConstructor :: "lib \<Rightarrow> tmplParam \<Rightarrow> string result" where
  "executeConstructor lib param =
     bind (Must (ParseConstructor lib)) (\<lambda>tmpl.
       case tmpl param of
         Inl err \<Rightarrow> Panic (PanicError err)
       | Inr text \<Rightarrow> Ok text)"

definition specStep ::
  "lib \<Rightarrow> importSpec list \<Rightarrow> bool \<Rightarrow> spec \<Rightarrow> string \<times> importSpec list
     \<Rightarrow> (string \<times> importSpec list) result" where
  "specStep lib fileImports hasPointerOpts sp st =
    (case sp of
       TypeSpec name ty \<Rightarrow>
        (case ty of
           StructType flds \<Rightarrow>
             bind (forEach (fieldStep lib fileImports) flds ([], snd st))
               (\<lambda>(fieldInfos, importPackages).
                  bind (executeConstructor lib
                          \<lparr>StructName = name, Fields = fieldInfos, Pointer = hasPointerOpts\<rparr>)
                    (\<lambda>text. Ok (fst st @ text, importPackages)))
         | _ \<Rightarrow> Ok st)
     | _ \<Rightarrow> Panic (InterfaceConversion (specKind sp) ''*ast.TypeSpec''))"

definition declStep ::
  "lib \<Rightarrow> importSpec list \<Rightarrow> decl \<Rightarrow> string \<times> importSpec list
     \<Rightarrow> (string \<times> importSpec list) result" where
  "declStep lib fileImports d st =
    (case d of
       GenDecl doc tok specs \<Rightarrow>
         if tok \<noteq> token_TYPE then Ok st
         else
          (case doc of
             None \<Rightarrow> Ok st
           | Some comments \<Rightarrow>
              (case scanDoc comments of
                 (hasMarker, hasPointerOpts) \<Rightarrow>
                   if \<not> hasMarker then Ok st
                   else forEach (specStep lib fileImports hasPointerOpts) specs st))
     | _ \<Rightarrow> Ok st)"

definition fileStep ::
  "lib \<Rightarrow> File \<Rightarrow> string \<times> importSpec list \<Rightarrow> (string \<times> importSpec list) result" where
  "fileStep lib f st = forEach (declStep lib (Imports f)) (Decls f) st"

text \<open>The files of a package, in the order of their names.\<close>

definition sortedFileList :: "package \<Rightarrow> File list" where
  "sortedFileList pkg =
    (let sortedFileNameList = sort (map fst (pkgFiles pkg))
     in List.map_filter (map_of (pkgFiles pkg)) sortedFileNameList)"

text \<open>The first part of the loop over the packages: \<open>body\<close> and \<open>importPackages\<close> of a package.\<close>

definition genBody :: "lib \<Rightarrow> package \<Rightarrow> (string \<times> importSpec list) result" where
  "genBody lib pkg = forEach (fileStep lib) (sortedFileList pkg) ([], [])"

section \<open>\<^verbatim>\<open>fmtImports\<close>\<close>

text \<open>
  The first loop puts each import into one of two groups. The second sorts each group by
  \<^verbatim>\<open>Path.Value\<close> (the path as written, with its quotes), prints its imports, each followed by
  a line break, and ends the group with a line break. \<^verbatim>\<open>sort.Slice\<close> is the insertion sort
  \<open>sort_key\<close>, which keeps imports of the same path in their order (\<^verbatim>\<open>sort.Slice\<close> promises
  no order among them); an error of the printer is given to \<^verbatim>\<open>panic\<close>. Writing to the
  buffer returns no error.
\<close>

fun groupImports ::
  "importSpec list \<Rightarrow> importSpec list \<times> importSpec list \<Rightarrow> importSpec list \<times> importSpec list" where
  "groupImports [] groups = groups"
| "groupImports (pkg # pkgs) groups =
     (if length (Split (PathValue pkg) (CHR ''/'')) < 3 \<and> \<not> Contains (PathValue pkg) ''.''
      then groupImports pkgs (fst groups @ [pkg], snd groups)
      else groupImports pkgs (fst groups, snd groups @ [pkg]))"

definition printImport :: "lib \<Rightarrow> importSpec \<Rightarrow> string \<Rightarrow> string result" where
  "printImport lib pkg b =
    (case FprintImport lib pkg of
       Inl err \<Rightarrow> Panic (PanicError err)
     | Inr text \<Rightarrow> Ok (b @ text @ nl))"

definition printGroup :: "lib \<Rightarrow> importSpec list \<Rightarrow> string \<Rightarrow> string result" where
  "printGroup lib grp b =
     bind (forEach (printImport lib) (sort_key PathValue grp) b) (\<lambda>b. Ok (b @ nl))"

definition fmtImports :: "lib \<Rightarrow> importSpec list \<Rightarrow> string result" where
  "fmtImports lib pkgs =
    (if pkgs = [] then Ok []
     else
       let groups = groupImports pkgs ([], [])
       in bind (forEach (printGroup lib) [fst groups, snd groups] [])
            (\<lambda>b. Ok (''import ('' @ nl @ b @ nl @ tabs 2 @ '')'')))"

section \<open>\<^verbatim>\<open>Run\<close>: the loop over the packages\<close>

text \<open>
  The options of \<^verbatim>\<open>Run\<close>. The file filter is an argument of \<^verbatim>\<open>parser.ParseDir\<close>, whose result
  (an error, or the packages in the order in which the loop meets them) is an argument
  here.
\<close>

record options =
  generatorName :: string

type_synonym Option = "options \<Rightarrow> options"

definition WithGeneratorName :: "string \<Rightarrow> Option" where
  "WithGeneratorName name = (\<lambda>opt. opt\<lparr>generatorName := name\<rparr>)"

text \<open>
  \<^verbatim>\<open>newWriter\<close> is the caller's: it gives the writer of a package, or panics (the one of
  \<^verbatim>\<open>main.go\<close> does when the file cannot be created). A writer takes the text and returns an
  error or none. The texts written are kept with the names of their packages. Closing the
  writers, deferred to the return of \<^verbatim>\<open>Run\<close>, is left out.
\<close>

type_synonym writer = "string \<Rightarrow> error option"

fun applyOptions :: "Option list \<Rightarrow> options \<Rightarrow> options" where
  "applyOptions [] option = option"
| "applyOptions (opt # opts) option = applyOptions opts (opt option)"

definition executeOut :: "lib \<Rightarrow> options \<Rightarrow> package \<Rightarrow> string \<times> importSpec list \<Rightarrow> string result" where
  "executeOut lib opt pkg st =
     bind (Must (ParseOut lib)) (\<lambda>tmpl.
       bind (fmtImports lib (snd st)) (\<lambda>imports.
         case tmpl \<lparr>GeneratorName = generatorName opt, PackageName = pkgName pkg,
                    ImportPackages = imports, Body = fst st\<rparr> of
           Inl err \<Rightarrow> Err err
         | Inr out \<Rightarrow> Ok out))"

definition writePackage ::
  "lib \<Rightarrow> options \<Rightarrow> (package \<Rightarrow> panic + writer) \<Rightarrow> package \<Rightarrow> string \<times> importSpec list
     \<Rightarrow> string result" where
  "writePackage lib opt newWriter pkg st =
     bind (executeOut lib opt pkg st) (\<lambda>out.
       case FormatSource lib out of
         Inl err \<Rightarrow> Err err
       | Inr str \<Rightarrow>
          (case newWriter pkg of
             Inl p \<Rightarrow> Panic p
           | Inr w \<Rightarrow>
              (case w str of
                 Some err \<Rightarrow> Err err
               | None \<Rightarrow> Ok str)))"

fun packagesLoop ::
  "lib \<Rightarrow> options \<Rightarrow> (package \<Rightarrow> panic + writer) \<Rightarrow> package list \<Rightarrow> (string \<times> string) list
     \<Rightarrow> (string \<times> string) list \<times> unit result" where
  "packagesLoop lib opt newWriter [] written = (written, Ok ())"
| "packagesLoop lib opt newWriter (pkg # pkgs) written =
    (case genBody lib pkg of
       Err err \<Rightarrow> (written, Err err)
     | Panic p \<Rightarrow> (written, Panic p)
     | Ok st \<Rightarrow>
         if length (fst st) = 0 then packagesLoop lib opt newWriter pkgs written
         else
          (case writePackage lib opt newWriter pkg st of
             Err err \<Rightarrow> (written, Err err)
           | Panic p \<Rightarrow> (written, Panic p)
           | Ok str \<Rightarrow> packagesLoop lib opt newWriter pkgs (written @ [(pkgName pkg, str)])))"

definition Run ::
  "lib \<Rightarrow> error + package list \<Rightarrow> (package \<Rightarrow> panic + writer) \<Rightarrow> Option list
     \<Rightarrow> (string \<times> string) list \<times> unit result" where
  "Run lib parseDir newWriter opts =
    (let opt = applyOptions opts \<lparr>generatorName = ''go-genconstructor''\<rparr>
     in case parseDir of
          Inl err \<Rightarrow> ([], Err err)
        | Inr pkgMap \<Rightarrow> packagesLoop lib opt newWriter pkgMap [])"

section \<open>A sample library and sample packages\<close>

text \<open>
  The theorems below hold for every library. Where one is evaluated on a package, the
  library is \<open>sampleLib\<close>:
  \<^item> the two templates are the ones of the source, and neither \<^verbatim>\<open>Parse\<close> nor \<^verbatim>\<open>Execute\<close> fails;
  \<^item> \<open>samplePrint\<close> prints identifiers, qualified identifiers, pointers, slices and maps as
    \<^verbatim>\<open>go/printer\<close> does, and \<open>samplePrintImport\<close> an import with no comment;
  \<^item> \<open>sampleUnquote\<close> removes the quotes of a quoted string with no escape in it, as
    \<^verbatim>\<open>strconv.Unquote\<close> does;
  \<^item> \<open>FormatSource\<close> returns the text as it is, so a text "written" below is the text
    before \<^verbatim>\<open>gofmt\<close> lays it out.
  On the other nodes and strings the sample reports an error where the Go library would
  not; no package below has them.
\<close>

fun samplePrint :: "expr \<Rightarrow> error + string" where
  "samplePrint (Ident n) = Inr n"
| "samplePrint (SelectorExpr (Ident x) sel) = Inr (x @ ''.'' @ sel)"
| "samplePrint (StarExpr x) =
     (case samplePrint x of Inr t \<Rightarrow> Inr (''*'' @ t) | Inl err \<Rightarrow> Inl err)"
| "samplePrint (ArrayType None x) =
     (case samplePrint x of Inr t \<Rightarrow> Inr (''[]'' @ t) | Inl err \<Rightarrow> Inl err)"
| "samplePrint (MapType k v) =
     (case samplePrint k of
        Inl err \<Rightarrow> Inl err
      | Inr tk \<Rightarrow>
         (case samplePrint v of
            Inl err \<Rightarrow> Inl err
          | Inr tv \<Rightarrow> Inr (''map['' @ tk @ '']'' @ tv)))"
| "samplePrint t = Inl (Error ''samplePrint: node not covered'')"

definition sampleImportText :: "importSpec \<Rightarrow> string" where
  "sampleImportText i =
    (case ImportName i of
       None \<Rightarrow> PathValue i
     | Some n \<Rightarrow> n @ '' '' @ PathValue i)"

definition samplePrintImport :: "importSpec \<Rightarrow> error + string" where
  "samplePrintImport i = Inr (sampleImportText i)"

definition plainChar :: "char \<Rightarrow> bool" where
  "plainChar c = (c \<noteq> CHR 0x22 \<and> c \<noteq> CHR 0x5C \<and> c \<noteq> CHR 0x0A \<and> (of_char c :: nat) < 128)"

definition sampleUnquote :: "string \<Rightarrow> error + string" where
  "sampleUnquote q =
    (if 2 \<le> length q \<and> hd q = CHR 0x22 \<and> last q = CHR 0x22 \<and> list_all plainChar (butlast (tl q))
     then Inr (butlast (tl q))
     else Inl (Error ''sampleUnquote: string not covered''))"

definition sampleLib :: lib where
  "sampleLib =
    \<lparr>Fprint = samplePrint,
     FprintImport = samplePrintImport,
     Unquote = sampleUnquote,
     ParseConstructor = Inr (\<lambda>p. Inr (constructorText p)),
     ParseOut = Inr (\<lambda>p. Inr (outText p)),
     FormatSource = Inr\<rparr>"

definition sampleWriter :: "package \<Rightarrow> panic + writer" where
  "sampleWriter pkg = Inr (\<lambda>str. None)"

definition isPanic :: "'a result \<Rightarrow> bool" where
  "isPanic r = (case r of Panic p \<Rightarrow> True | _ \<Rightarrow> False)"

section \<open>Notions of the specification\<close>

text \<open>
  The test of the loop over the comments, by name, and the reading of the marker in the
  specification: the first word of the trimmed comment is the marker itself.
\<close>

definition hasMarkerPrefix :: "string \<Rightarrow> bool" where
  "hasMarkerPrefix commentText = HasPrefix (TrimSpace commentText) commentMarker"

definition spec_firstWordIsMarker :: "string \<Rightarrow> bool" where
  "spec_firstWordIsMarker commentText =
    (case stringsFields (TrimSpace commentText) of
       [] \<Rightarrow> False
     | w # ws \<Rightarrow> w = commentMarker)"

definition isStructType :: "expr \<Rightarrow> bool" where
  "isStructType t = (case t of StructType flds \<Rightarrow> True | _ \<Rightarrow> False)"

text \<open>A library with the two templates of the source, which parse and execute.\<close>

definition withTemplates :: "lib \<Rightarrow> lib" where
  "withTemplates lib =
     lib\<lparr>ParseConstructor := Inr (\<lambda>p. Inr (constructorText p)),
         ParseOut := Inr (\<lambda>p. Inr (outText p))\<rparr>"





section \<open>Sample packages\<close>

text \<open>A package of one file with one marked structure.\<close>

definition structPackage ::
  "string \<Rightarrow> string \<Rightarrow> string list \<Rightarrow> string \<Rightarrow> field list \<Rightarrow> package" where
  "structPackage pkg fileName doc name flds =
     Package pkg
       [(fileName,
         \<lparr>Decls = [GenDecl (Some doc) token_TYPE [TypeSpec name (StructType flds)]],
          Imports = []\<rparr>)]"

text \<open>
  \<^verbatim>\<open>//genconstructor\<close>
  \<^verbatim>\<open>type Foo struct { A string; B int `required:"7"` }\<close>
  and the same structure with \<^verbatim>\<open>A string `required:""`\<close>.
\<close>

definition fieldA :: field where
  "fieldA = Field [''A''] (Ident ''string'') None"

definition fieldATagged :: field where
  \<open>fieldATagged = Field [''A''] (Ident ''string'') (Some ''`required:""`'')\<close>

definition fieldB :: field where
  \<open>fieldB = Field [''B''] (Ident ''int'') (Some ''`required:"7"`'')\<close>

definition fooFields :: "field list" where
  "fooFields = [fieldA, fieldB]"

definition fooTaggedFields :: "field list" where
  "fooTaggedFields = [fieldATagged, fieldB]"

definition fooPackage :: package where
  "fooPackage = structPackage ''foo'' ''foo.go'' [''//genconstructor''] ''Foo'' fooFields"

definition fooTaggedPackage :: package where
  "fooTaggedPackage =
     structPackage ''foo'' ''foo.go'' [''//genconstructor''] ''Foo'' fooTaggedFields"

text \<open>
  \<^verbatim>\<open>//genconstructor\<close>
  \<^verbatim>\<open>type Guarded struct { sync.Mutex `required:""` }\<close>
\<close>

definition embeddedPackage :: package where
  \<open>embeddedPackage =
     structPackage ''emb'' ''emb.go'' [''//genconstructor''] ''Guarded''
       [Field [] (SelectorExpr (Ident ''sync'') ''Mutex'') (Some ''`required:""`'')]\<close>

text \<open>
  \<^verbatim>\<open>//genconstructorX\<close>
  \<^verbatim>\<open>type Baz struct {}\<close>
\<close>

definition bazDecl :: decl where
  "bazDecl = GenDecl (Some [''//genconstructorX'']) token_TYPE [TypeSpec ''Baz'' (StructType [])]"

text \<open>Libraries in which one call fails: \<^verbatim>\<open>Execute\<close> of the template of the file, and printing \<^verbatim>\<open>int\<close>.\<close>

definition failingOutLib :: lib where
  "failingOutLib = sampleLib\<lparr>ParseOut := Inr (\<lambda>param. Inl (Error ''out: execute failed''))\<rparr>"

definition failingPrintLib :: lib where
  "failingPrintLib =
     sampleLib\<lparr>Fprint := (\<lambda>t. if t = Ident ''int'' then Inl (Error ''print failed'')
                                 else samplePrint t)\<rparr>"












text \<open>
  A package \<^verbatim>\<open>ok\<close> with \<^verbatim>\<open>type Job struct { ID string `required:""` }\<close>, and a package
  \<^verbatim>\<open>bad\<close> of two files: \<^verbatim>\<open>b.go\<close> has a function and the marked group of \<^verbatim>\<open>type Alias string\<close>
  and the structure \<^verbatim>\<open>Foo\<close> with both fields tagged; \<^verbatim>\<open>a.go\<close> has no declaration.
\<close>

definition okPackage :: package where
  \<open>okPackage =
     structPackage ''ok'' ''ok.go'' [''//genconstructor''] ''Job''
       [Field [''ID''] (Ident ''string'') (Some ''`required:""`'')]\<close>

definition okOutput :: string where
  "okOutput =
     nl @ tabs 3 @ ''// Code generated by go-genconstructor; DO NOT EDIT.'' @ nl
     @ nl @ tabs 3 @ ''package ok'' @ nl
     @ nl @ tabs 3 @ nl
     @ nl @ tabs 3
       @ nl @ tabs 6 @ ''func NewJob(''
       @ nl @ tabs 9 @ ''iD string,''
       @ nl @ tabs 6 @ '') Job {''
       @ nl @ tabs 7 @ ''return Job{''
       @ nl @ tabs 10 @ ''ID: iD,''
       @ nl @ tabs 7 @ ''}''
       @ nl @ tabs 6 @ ''}''
       @ nl @ tabs 5
     @ nl @ tabs 2"

definition badFile :: File where
  "badFile =
     \<lparr>Decls = [FuncDecl,
               GenDecl (Some [''//genconstructor'']) token_TYPE
                 [TypeSpec ''Alias'' (Ident ''string''),
                  TypeSpec ''Foo'' (StructType fooTaggedFields)]],
      Imports = []\<rparr>"

definition emptyFile :: File where
  "emptyFile = \<lparr>Decls = [], Imports = []\<rparr>"

definition badPackage :: package where
  "badPackage = Package ''bad'' [(''b.go'', badFile), (''a.go'', emptyFile)]"

section \<open>Parameter names\<close>

lemma indexFrom_takeWhile:
  "indexFrom f s k = (if list_ex f s then k + int (length (takeWhile (\<lambda>c. \<not> f c) s)) else - 1)"
  by (induction s arbitrary: k) auto

lemma take_length_takeWhile: "take (length (takeWhile P xs)) xs = takeWhile P xs"
  by (induction xs) auto

text \<open>The prefix that \<^verbatim>\<open>toLowerCamel\<close> looks up in the table is the leading run of upper-case letters.\<close>

lemma upperRun_takeWhile:
  "take (nat (let i = IndexFunc s (\<lambda>c. \<not> isUpper c) in if i = - 1 then int (length s) else i)) s
     = takeWhile isUpper s"
proof (cases "list_ex (\<lambda>c. \<not> isUpper c) s")
  case True
  then show ?thesis
    by (simp add: IndexFunc_def indexFrom_takeWhile Let_def take_length_takeWhile)
next
  case False
  then have tw: "takeWhile isUpper s = s"
    by (simp add: list_ex_iff takeWhile_eq_all_conv)
  have "IndexFunc s (\<lambda>c. \<not> isUpper c) = - 1"
    using False by (simp add: IndexFunc_def indexFrom_takeWhile)
  then show ?thesis
    by (simp add: Let_def tw)
qed

text \<open>Every key of the table starts with a lower-case letter.\<close>

lemma commonInitialisms_lower: "commonInitialisms x \<Longrightarrow> x \<noteq> [] \<and> isLower (hd x)"
  unfolding commonInitialisms_def commonInitialismsKeys_def
  by (auto simp: isLower_def)

lemma upperRun_not_initialism: "\<not> commonInitialisms (takeWhile isUpper s)"
proof
  assume a: "commonInitialisms (takeWhile isUpper s)"
  then have ne: "takeWhile isUpper s \<noteq> []" and lo: "isLower (hd (takeWhile isUpper s))"
    using commonInitialisms_lower by blast+
  from ne have "hd (takeWhile isUpper s) \<in> set (takeWhile isUpper s)"
    by simp
  then have "isUpper (hd (takeWhile isUpper s))"
    by (rule set_takeWhileD[THEN conjunct2])
  with lo show False
    by (auto simp: isUpper_def isLower_def Let_def)
qed

text \<open>
  So the lookup never succeeds, and \<^verbatim>\<open>toLowerCamel\<close> lower-cases the first letter of every
  name and nothing else.
\<close>

lemma toLowerCamel_first_letter:
  "toLowerCamel s = (case s of [] \<Rightarrow> [] | c # cs \<Rightarrow> toLowerRune c # cs)"
proof (cases s)
  case Nil
  then show ?thesis
    by (simp add: toLowerCamel_def)
next
  case (Cons c cs)
  define n where
    "n = nat (let i = IndexFunc s (\<lambda>c. \<not> isUpper c) in if i = - 1 then int (length s) else i)"
  have "\<not> commonInitialisms (take n s)"
    unfolding n_def by (simp only: upperRun_takeWhile upperRun_not_initialism not_False_eq_True)
  moreover have "toLowerCamel s =
      (if commonInitialisms (take n s) then ToLower (take n s) @ drop n s
       else ToLower (take 1 s) @ drop 1 s)"
    unfolding n_def using Cons by (simp add: toLowerCamel_def Let_def)
  ultimately show ?thesis
    using Cons by (simp add: ToLower_def)
qed

text \<open>
  Claim C2: the parameter name of a field lower-cases the first letter only, except that
  a leading run of upper-case letters found in the table of initialisms is lower-cased as
  a whole, so that \<^verbatim>\<open>ID\<close> becomes \<^verbatim>\<open>id\<close> and \<^verbatim>\<open>Name\<close> becomes \<^verbatim>\<open>name\<close>.
  The code looks the run up as it stands, in upper case, in a table whose keys are in
  lower case: for the field name \<^verbatim>\<open>ID\<close> it returns \<^verbatim>\<open>iD\<close>.
\<close>

theorem toLowerCamel_ID: "toLowerCamel ''ID'' = ''iD''"
  by code_simp

section \<open>Results and loops\<close>

lemma bind_Ok [simp]: "bind (Ok x) f = f x"
  by (simp add: bind_def)

lemma bind_Err [simp]: "bind (Err e) f = Err e"
  by (simp add: bind_def)

lemma bind_Panic [simp]: "bind (Panic p) f = Panic p"
  by (simp add: bind_def)


lemma bind_forEach_Nil [simp]: "bind r (forEach step []) = r"
  by (cases r) simp_all

lemma forEach_single: "forEach step [x] s = step x s"
  by simp

lemma forEach_append:
  "forEach step (xs @ ys) s = bind (forEach step xs s) (forEach step ys)"
proof (induction xs arbitrary: s)
  case Nil
  show ?case by simp
next
  case (Cons x xs)
  show ?case
    by (cases "step x s") (simp_all add: Cons.IH)
qed

section \<open>The templates of the source\<close>

lemma withTemplates_simps [simp]:
  "Fprint (withTemplates lib) = Fprint lib"
  "FprintImport (withTemplates lib) = FprintImport lib"
  "Unquote (withTemplates lib) = Unquote lib"
  "FormatSource (withTemplates lib) = FormatSource lib"
  "ParseConstructor (withTemplates lib) = Inr (\<lambda>p. Inr (constructorText p))"
  "ParseOut (withTemplates lib) = Inr (\<lambda>p. Inr (outText p))"
  by (simp_all add: withTemplates_def)

lemma requiredValue_withTemplates [simp]:
  "requiredValue (withTemplates lib) = requiredValue lib"
  by (rule ext) (simp add: requiredValue_def split: option.splits)

lemma fieldStep_withTemplates [simp]:
  "fieldStep (withTemplates lib) = fieldStep lib"
  by (intro ext) (simp add: fieldStep_def split: option.splits sum.splits)

lemma executeConstructor_withTemplates [simp]:
  "executeConstructor (withTemplates lib) param = Ok (constructorText param)"
  by (simp add: executeConstructor_def Must_def)

lemma constructorText_not_empty: "constructorText p \<noteq> []"
  by (simp add: constructorText_def nl_def)

section \<open>The marker\<close>


lemma scanDoc_hasMarker: "fst (scanDoc comments) \<longleftrightarrow> list_ex hasMarkerPrefix comments"
  by (induction comments) (auto simp: hasMarkerPrefix_def)


lemma specStep_struct:
  "forEach (fieldStep lib fileImports) flds ([], snd st) = Ok (fieldInfos, importPackages) \<Longrightarrow>
   specStep (withTemplates lib) fileImports ptr (TypeSpec name (StructType flds)) st
     = Ok (fst st @ constructorText \<lparr>StructName = name, Fields = fieldInfos, Pointer = ptr\<rparr>,
           importPackages)"
  by (simp add: specStep_def)

lemma specStep_struct_changes:
  "specStep (withTemplates lib) fileImports ptr (TypeSpec name (StructType flds)) st \<noteq> Ok st"
proof (cases "forEach (fieldStep lib fileImports) flds ([], snd st)")
  case (Ok r)
  obtain fieldInfos importPackages where r: "r = (fieldInfos, importPackages)"
    by (cases r)
  show ?thesis
    using specStep_struct[OF Ok[unfolded r], of ptr name] constructorText_not_empty
    by (cases st) auto
next
  case (Err e)
  then show ?thesis by (simp add: specStep_def)
next
  case (Panic p)
  then show ?thesis by (simp add: specStep_def)
qed

lemma specStep_other:
  "\<not> isStructType ty \<Longrightarrow> specStep lib fileImports ptr (TypeSpec name ty) st = Ok st"
  by (cases ty) (simp_all add: specStep_def isStructType_def)

text \<open>
  Claim C5, as amended: a type declaration is taken for the generation of a constructor
  if and only if its doc comment has a comment whose text, trimmed, starts with the marker
  \<^verbatim>\<open>//genconstructor\<close> (the marker need not be a word of its own), and its declared type is a
  structure type. Taken means: the step of \<^verbatim>\<open>Run\<close> for the declaration does not leave
  \<open>body\<close> and \<open>importPackages\<close> as they were: it appends the constructor to \<open>body\<close>,
  or fails on a field.
\<close>

theorem declStep_selects:
  "declStep (withTemplates lib) fileImports (GenDecl doc token_TYPE [TypeSpec name ty]) st \<noteq> Ok st
     \<longleftrightarrow> (\<exists>comments. doc = Some comments \<and> list_ex hasMarkerPrefix comments) \<and> isStructType ty"
proof (cases doc)
  case None
  then show ?thesis by (simp add: declStep_def)
next
  case (Some comments)
  show ?thesis
  proof (cases "list_ex hasMarkerPrefix comments")
    case False
    then have "\<not> fst (scanDoc comments)" by (simp add: scanDoc_hasMarker)
    then show ?thesis using Some False
      by (cases "scanDoc comments") (simp add: declStep_def)
  next
    case True
    then have m: "fst (scanDoc comments)" by (simp add: scanDoc_hasMarker)
    show ?thesis
    proof (cases "isStructType ty")
      case False
      then show ?thesis using Some m
        by (cases "scanDoc comments") (simp add: declStep_def specStep_other)
    next
      case st: True
      then obtain flds where ty: "ty = StructType flds"
        by (cases ty) (simp_all add: isStructType_def)
      show ?thesis using Some m True st ty specStep_struct_changes
        by (cases "scanDoc comments") (simp add: declStep_def)
    qed
  qed
qed

text \<open>
  Claim C5 as stated fails: the first word of \<^verbatim>\<open>//genconstructorX\<close> is not the marker, and
  the structure under that comment gets a constructor.
\<close>

theorem marker_first_word_counterexample:
  "declStep (withTemplates sampleLib) [] bazDecl ([], [])
     = Ok (constructorText \<lparr>StructName = ''Baz'', Fields = [], Pointer = False\<rparr>, [])
   \<and> declStep (withTemplates sampleLib) [] bazDecl ([], []) \<noteq> Ok ([], [])
   \<and> \<not> list_ex spec_firstWordIsMarker [''//genconstructorX'']"
  by code_simp

section \<open>The pointer option\<close>




section \<open>Constants and parameters\<close>






section \<open>Imports of the field types\<close>






section \<open>The import block\<close>









section \<open>Two structures evaluated\<close>

text \<open>
  Claim C1 as stated fails: for \<^verbatim>\<open>Foo\<close> with \<^verbatim>\<open>A string\<close> (no tag) and \<^verbatim>\<open>B int `required:"7"`\<close>
  the text generated is not the constructor with the parameter \<^verbatim>\<open>a string\<close> and the
  initializers \<^verbatim>\<open>A: a\<close> and \<^verbatim>\<open>B: 7\<close>, which is what the template writes for the two fields.
\<close>

theorem untagged_field_counterexample:
  "genBody sampleLib fooPackage \<noteq>
     Ok (constructorText
           \<lparr>StructName = ''Foo'',
            Fields = [\<lparr>Type = ''string'', Name = ''A'', ConstValue = []\<rparr>,
                      \<lparr>Type = ''int'', Name = ''B'', ConstValue = ''7''\<rparr>],
            Pointer = False\<rparr>, [])"
  by code_simp

text \<open>
  Claim C1, as amended: for \<^verbatim>\<open>Foo\<close> with \<^verbatim>\<open>A string\<close> (no tag) and \<^verbatim>\<open>B int `required:"7"`\<close> the
  constructor has no parameter and returns \<^verbatim>\<open>Foo{B: 7}\<close>: the field without a tag is passed
  over. With \<^verbatim>\<open>A string `required:""`\<close> the constructor takes \<^verbatim>\<open>a string\<close> and returns
  \<^verbatim>\<open>Foo{A: a, B: 7}\<close>.
\<close>

theorem untagged_field_skipped:
  "genBody sampleLib fooPackage
     = Ok (nl @ tabs 6 @ ''func NewFoo(''
           @ nl @ tabs 6 @ '') Foo {''
           @ nl @ tabs 7 @ ''return Foo{''
           @ nl @ tabs 10 @ ''B: 7,''
           @ nl @ tabs 7 @ ''}''
           @ nl @ tabs 6 @ ''}''
           @ nl @ tabs 5, [])
   \<and> genBody sampleLib fooTaggedPackage
     = Ok (nl @ tabs 6 @ ''func NewFoo(''
           @ nl @ tabs 9 @ ''a string,''
           @ nl @ tabs 6 @ '') Foo {''
           @ nl @ tabs 7 @ ''return Foo{''
           @ nl @ tabs 10 @ ''A: a,''
           @ nl @ tabs 10 @ ''B: 7,''
           @ nl @ tabs 7 @ ''}''
           @ nl @ tabs 6 @ ''}''
           @ nl @ tabs 5, [])"
  by code_simp

text \<open>
  Claim C10: there is an input for which \<^verbatim>\<open>Run\<close> panics on a failed type assertion: a
  marked structure with the embedded field \<^verbatim>\<open>sync.Mutex\<close>, tagged \<^verbatim>\<open>required\<close>. Nothing is
  written and no error is returned.
\<close>

theorem embedded_selector_panics:
  "Run sampleLib (Inr [embeddedPackage]) sampleWriter []
     = ([], Panic (InterfaceConversion ''*ast.SelectorExpr'' ''*ast.Ident''))"
  by code_simp

section \<open>Failures of the templates\<close>

lemma forEach_Panic_or_same:
  assumes "\<And>x s. step' x s = Panic pe \<or> step' x s = step x s"
  shows "forEach step' xs s = Panic pe \<or> forEach step' xs s = forEach step xs s"
proof (induction xs arbitrary: s)
  case Nil
  show ?case by simp
next
  case (Cons x xs)
  from assms[of x s] show ?case
  proof
    assume "step' x s = Panic pe"
    then show ?thesis by simp
  next
    assume same: "step' x s = step x s"
    show ?thesis
    proof (cases "step x s")
      case (Ok s1)
      with same Cons.IH[of s1] show ?thesis by simp
    next
      case (Err e)
      with same show ?thesis by simp
    next
      case (Panic p)
      with same show ?thesis by simp
    qed
  qed
qed

lemma requiredValue_cong:
  "Unquote lib' = Unquote lib \<Longrightarrow> requiredValue lib' fld = requiredValue lib fld"
  by (simp add: requiredValue_def split: option.splits)

lemma fieldStep_cong:
  "Fprint lib' = Fprint lib \<Longrightarrow> Unquote lib' = Unquote lib \<Longrightarrow> fieldStep lib' = fieldStep lib"
  by (intro ext)
    (simp add: fieldStep_def requiredValue_cong[of lib' lib] split: option.splits sum.splits)

lemma specStep_Panic_or_same:
  assumes "Fprint lib' = Fprint lib" and "Unquote lib' = Unquote lib"
    and "\<And>param. executeConstructor lib' param = Panic pe"
  shows "specStep lib' fileImports ptr sp st = Panic pe
       \<or> specStep lib' fileImports ptr sp st = specStep lib fileImports ptr sp st"
proof (cases sp)
  case (TypeSpec name ty)
  show ?thesis
  proof (cases ty)
    case (StructType flds)
    show ?thesis
    proof (cases "forEach (fieldStep lib fileImports) flds ([], snd st)")
      case (Ok r)
      then have "specStep lib' fileImports ptr sp st = Panic pe"
        using TypeSpec StructType assms(3)
        by (cases r) (simp add: specStep_def fieldStep_cong[OF assms(1,2)])
      then show ?thesis ..
    next
      case (Err e)
      then show ?thesis
        using TypeSpec StructType by (simp add: specStep_def fieldStep_cong[OF assms(1,2)])
    next
      case (Panic p)
      then show ?thesis
        using TypeSpec StructType by (simp add: specStep_def fieldStep_cong[OF assms(1,2)])
    qed
  qed (simp_all add: TypeSpec specStep_def)
qed (simp_all add: specStep_def)

lemma declStep_Panic_or_same:
  assumes "Fprint lib' = Fprint lib" and "Unquote lib' = Unquote lib"
    and "\<And>param. executeConstructor lib' param = Panic pe"
  shows "declStep lib' fileImports d st = Panic pe
       \<or> declStep lib' fileImports d st = declStep lib fileImports d st"
proof (cases d)
  case (GenDecl doc tok specs)
  show ?thesis
  proof (cases "tok = token_TYPE \<and> doc \<noteq> None \<and> fst (scanDoc (the doc))")
    case True
    then obtain comments ptr where "doc = Some comments" "scanDoc comments = (True, ptr)"
      by (cases doc; cases "scanDoc (the doc)") auto
    then show ?thesis
      using GenDecl True
        forEach_Panic_or_same[of "specStep lib' fileImports ptr" pe "specStep lib fileImports ptr" specs st,
          OF specStep_Panic_or_same[OF assms]]
      by (simp add: declStep_def)
  next
    case False
    then show ?thesis
      using GenDecl by (cases doc; cases "scanDoc (the doc)") (auto simp: declStep_def)
  qed
qed (simp_all add: declStep_def)

lemma genBody_Panic_or_same:
  assumes "Fprint lib' = Fprint lib" and "Unquote lib' = Unquote lib"
    and "\<And>param. executeConstructor lib' param = Panic pe"
  shows "genBody lib' pkg = Panic pe \<or> genBody lib' pkg = genBody lib pkg"
proof -
  have "fileStep lib' f st = Panic pe \<or> fileStep lib' f st = fileStep lib f st" for f st
    unfolding fileStep_def
    by (rule forEach_Panic_or_same) (rule declStep_Panic_or_same[OF assms])
  then show ?thesis
    unfolding genBody_def by (rule forEach_Panic_or_same)
qed

lemma printImport_cong: "FprintImport lib' = FprintImport lib \<Longrightarrow> printImport lib' = printImport lib"
  by (intro ext) (simp add: printImport_def)

lemma fmtImports_cong:
  assumes "FprintImport lib' = FprintImport lib"
  shows "fmtImports lib' = fmtImports lib"
proof -
  have "printGroup lib' = printGroup lib"
    by (intro ext) (simp add: printGroup_def printImport_cong[OF assms])
  then show ?thesis
    by (intro ext) (simp add: fmtImports_def)
qed

lemma writePackage_cong:
  assumes "FprintImport lib' = FprintImport lib" and "ParseOut lib' = ParseOut lib"
    and "FormatSource lib' = FormatSource lib"
  shows "writePackage lib' = writePackage lib"
  by (intro ext)
    (simp add: writePackage_def executeOut_def fmtImports_cong[OF assms(1)] assms(2,3))

lemma specStep_cong:
  assumes "Fprint lib' = Fprint lib" and "Unquote lib' = Unquote lib"
    and "ParseConstructor lib' = ParseConstructor lib"
  shows "specStep lib' = specStep lib"
proof (intro ext)
  fix fileImports ptr sp st
  have e: "executeConstructor lib' = executeConstructor lib"
    by (intro ext) (simp add: executeConstructor_def assms(3))
  show "specStep lib' fileImports ptr sp st = specStep lib fileImports ptr sp st"
  proof (cases sp)
    case (TypeSpec name ty)
    then show ?thesis
      by (cases ty) (simp_all add: specStep_def e fieldStep_cong[OF assms(1,2)])
  qed (simp_all add: specStep_def)
qed

lemma declStep_cong:
  assumes "Fprint lib' = Fprint lib" and "Unquote lib' = Unquote lib"
    and "ParseConstructor lib' = ParseConstructor lib"
  shows "declStep lib' = declStep lib"
proof (intro ext)
  fix fileImports d st
  show "declStep lib' fileImports d st = declStep lib fileImports d st"
  proof (cases d)
    case (GenDecl doc tok specs)
    then show ?thesis
      by (cases doc; cases "scanDoc (the doc)") (simp_all add: declStep_def specStep_cong[OF assms])
  qed (simp_all add: declStep_def)
qed

lemma genBody_cong:
  assumes "Fprint lib' = Fprint lib" and "Unquote lib' = Unquote lib"
    and "ParseConstructor lib' = ParseConstructor lib"
  shows "genBody lib' = genBody lib"
proof -
  have "fileStep lib' = fileStep lib"
    by (intro ext) (simp add: fileStep_def declStep_cong[OF assms])
  then show ?thesis
    by (intro ext) (simp add: genBody_def)
qed

text \<open>The loop over the packages, when the two libraries differ in one step.\<close>

lemma packagesLoop_fail_or_same:
  assumes "\<And>pkg.
      (case genBody lib' pkg of Ok st \<Rightarrow> False | Err e \<Rightarrow> F = Err e | Panic p \<Rightarrow> F = Panic p)
      \<or> genBody lib' pkg = genBody lib pkg"
    and "\<And>pkg st.
      (case writePackage lib' opt nw pkg st of
         Ok str \<Rightarrow> False | Err e \<Rightarrow> F = Err e | Panic p \<Rightarrow> F = Panic p)
      \<or> writePackage lib' opt nw pkg st = writePackage lib opt nw pkg st"
  shows "snd (packagesLoop lib' opt nw pkgs written) = F
       \<or> packagesLoop lib' opt nw pkgs written = packagesLoop lib opt nw pkgs written"
proof (induction pkgs arbitrary: written)
  case Nil
  show ?case by simp
next
  case (Cons pkg pkgs)
  from assms(1)[of pkg] show ?case
  proof
    assume "case genBody lib' pkg of Ok st \<Rightarrow> False | Err e \<Rightarrow> F = Err e | Panic p \<Rightarrow> F = Panic p"
    then show ?thesis
      by (cases "genBody lib' pkg") simp_all
  next
    assume same: "genBody lib' pkg = genBody lib pkg"
    show ?thesis
    proof (cases "genBody lib pkg")
      case body: (Ok st)
      show ?thesis
      proof (cases "length (fst st) = 0")
        case True
        with same body Cons.IH[of written] show ?thesis by simp
      next
        case False
        from assms(2)[of pkg st] show ?thesis
        proof
          assume "case writePackage lib' opt nw pkg st of
                    Ok str \<Rightarrow> False | Err e \<Rightarrow> F = Err e | Panic p \<Rightarrow> F = Panic p"
          with same body False show ?thesis
            by (cases "writePackage lib' opt nw pkg st") simp_all
        next
          assume w: "writePackage lib' opt nw pkg st = writePackage lib opt nw pkg st"
          show ?thesis
          proof (cases "writePackage lib opt nw pkg st")
            case (Ok str)
            with w same body False Cons.IH[of "written @ [(pkgName pkg, str)]"]
            show ?thesis by simp
          next
            case (Err e')
            with w same body False show ?thesis by simp
          next
            case (Panic p')
            with w same body False show ?thesis by simp
          qed
        qed
      qed
    next
      case (Err e')
      with same show ?thesis by simp
    next
      case (Panic p')
      with same show ?thesis by simp
    qed
  qed
qed

lemma Run_fail_or_same:
  assumes "\<And>pkg.
      (case genBody lib' pkg of Ok st \<Rightarrow> False | Err e \<Rightarrow> F = Err e | Panic p \<Rightarrow> F = Panic p)
      \<or> genBody lib' pkg = genBody lib pkg"
    and "\<And>opt pkg st.
      (case writePackage lib' opt newWriter pkg st of
         Ok str \<Rightarrow> False | Err e \<Rightarrow> F = Err e | Panic p \<Rightarrow> F = Panic p)
      \<or> writePackage lib' opt newWriter pkg st = writePackage lib opt newWriter pkg st"
  shows "snd (Run lib' parseDir newWriter opts) = F
       \<or> Run lib' parseDir newWriter opts = Run lib parseDir newWriter opts"
proof (cases parseDir)
  case (Inl err)
  then show ?thesis by (simp add: Run_def)
next
  case (Inr pkgMap)
  then show ?thesis
    using packagesLoop_fail_or_same[where lib' = lib' and F = F and lib = lib, OF assms(1) assms(2)]
    by (simp add: Run_def Let_def)
qed

lemma constructor_failure_panics:
  assumes "Fprint lib' = Fprint lib" and "Unquote lib' = Unquote lib"
    and "FprintImport lib' = FprintImport lib" and "ParseOut lib' = ParseOut lib"
    and "FormatSource lib' = FormatSource lib"
    and "\<And>param. executeConstructor lib' param = Panic pe"
  shows "snd (Run lib' parseDir newWriter opts) = Panic pe
       \<or> Run lib' parseDir newWriter opts = Run lib parseDir newWriter opts"
proof (rule Run_fail_or_same)
  fix pkg
  from genBody_Panic_or_same[OF assms(1,2,6), of pkg]
  show "(case genBody lib' pkg of Ok st \<Rightarrow> False | Err e \<Rightarrow> Panic pe = Err e
          | Panic p \<Rightarrow> Panic pe = Panic p) \<or> genBody lib' pkg = genBody lib pkg"
    by auto
next
  fix opt pkg st
  show "(case writePackage lib' opt newWriter pkg st of
           Ok str \<Rightarrow> False | Err e \<Rightarrow> Panic pe = Err e | Panic p \<Rightarrow> Panic pe = Panic p)
        \<or> writePackage lib' opt newWriter pkg st = writePackage lib opt newWriter pkg st"
    by (simp add: writePackage_cong[OF assms(3,4,5)])
qed

lemma out_failure:
  assumes "Fprint lib' = Fprint lib" and "Unquote lib' = Unquote lib"
    and "ParseConstructor lib' = ParseConstructor lib"
    and "\<And>opt pkg st.
      (case executeOut lib' opt pkg st of
         Ok out \<Rightarrow> False | Err e \<Rightarrow> F = Err e | Panic p \<Rightarrow> F = Panic p)
      \<or> executeOut lib' opt pkg st = executeOut lib opt pkg st \<and> (\<forall>out. executeOut lib opt pkg st \<noteq> Ok out)"
  shows "snd (Run lib' parseDir newWriter opts) = F
       \<or> Run lib' parseDir newWriter opts = Run lib parseDir newWriter opts"
proof (rule Run_fail_or_same)
  fix pkg
  show "(case genBody lib' pkg of Ok st \<Rightarrow> False | Err e \<Rightarrow> F = Err e | Panic p \<Rightarrow> F = Panic p)
        \<or> genBody lib' pkg = genBody lib pkg"
    by (simp add: genBody_cong[OF assms(1,2,3)])
next
  fix opt pkg st
  from assms(4)[of opt pkg st]
  show "(case writePackage lib' opt newWriter pkg st of
           Ok str \<Rightarrow> False | Err e \<Rightarrow> F = Err e | Panic p \<Rightarrow> F = Panic p)
        \<or> writePackage lib' opt newWriter pkg st = writePackage lib opt newWriter pkg st"
    by (cases "executeOut lib' opt pkg st"; cases "executeOut lib opt pkg st")
      (auto simp: writePackage_def)
qed

lemma executeOut_parse_failure:
  "executeOut (lib\<lparr>ParseOut := Inl err\<rparr>) opt pkg st = Panic (PanicError err)"
  by (simp add: executeOut_def Must_def)

lemma executeOut_execute_failure:
  "executeOut (lib\<lparr>ParseOut := Inr (\<lambda>param. Inl err)\<rparr>) opt pkg st = Err err
   \<or> executeOut (lib\<lparr>ParseOut := Inr (\<lambda>param. Inl err)\<rparr>) opt pkg st
       = executeOut (lib\<lparr>ParseOut := Inr tmpl\<rparr>) opt pkg st
     \<and> (\<forall>out. executeOut (lib\<lparr>ParseOut := Inr tmpl\<rparr>) opt pkg st \<noteq> Ok out)"
proof -
  have c: "fmtImports (lib\<lparr>ParseOut := x\<rparr>) = fmtImports lib" for x
    by (rule fmtImports_cong) simp
  show ?thesis
    by (cases "fmtImports lib (snd st)") (simp_all add: executeOut_def Must_def c)
qed

text \<open>
  Claim C4, as amended: a failure to parse either template and a failure to execute the
  template of the constructor make \<^verbatim>\<open>Run\<close> panic with the error; a failure to execute the
  template of the file makes \<^verbatim>\<open>Run\<close> return the error. The first four statements are
  about the two places where \<^verbatim>\<open>Run\<close> uses a template (the template of the file is
  executed once the import block is formatted). The last four are about \<^verbatim>\<open>Run\<close>: when
  the library is changed so that the call fails, \<^verbatim>\<open>Run\<close> ends so, unless it comes out as
  it does with the library unchanged (the call is never reached).
\<close>

theorem template_failures:
  "executeConstructor (lib\<lparr>ParseConstructor := Inl err\<rparr>) param = Panic (PanicError err)
   \<and> executeConstructor (lib\<lparr>ParseConstructor := Inr (\<lambda>param. Inl err)\<rparr>) param
       = Panic (PanicError err)
   \<and> executeOut (lib\<lparr>ParseOut := Inl err\<rparr>) opt pkg st = Panic (PanicError err)
   \<and> executeOut (lib\<lparr>ParseOut := Inr (\<lambda>param. Inl err)\<rparr>) opt pkg st
       = bind (fmtImports lib (snd st)) (\<lambda>imports. Err err)
   \<and> (snd (Run (lib\<lparr>ParseConstructor := Inl err\<rparr>) parseDir newWriter opts) = Panic (PanicError err)
      \<or> Run (lib\<lparr>ParseConstructor := Inl err\<rparr>) parseDir newWriter opts
          = Run lib parseDir newWriter opts)
   \<and> (snd (Run (lib\<lparr>ParseConstructor := Inr (\<lambda>param. Inl err)\<rparr>) parseDir newWriter opts)
          = Panic (PanicError err)
      \<or> Run (lib\<lparr>ParseConstructor := Inr (\<lambda>param. Inl err)\<rparr>) parseDir newWriter opts
          = Run lib parseDir newWriter opts)
   \<and> (snd (Run (lib\<lparr>ParseOut := Inl err\<rparr>) parseDir newWriter opts) = Panic (PanicError err)
      \<or> Run (lib\<lparr>ParseOut := Inl err\<rparr>) parseDir newWriter opts
          = Run lib parseDir newWriter opts)
   \<and> (snd (Run (lib\<lparr>ParseOut := Inr (\<lambda>param. Inl err)\<rparr>) parseDir newWriter opts) = Err err
      \<or> Run (lib\<lparr>ParseOut := Inr (\<lambda>param. Inl err)\<rparr>) parseDir newWriter opts
          = Run (lib\<lparr>ParseOut := Inr tmpl\<rparr>) parseDir newWriter opts)"
proof (intro conjI)
  show "executeConstructor (lib\<lparr>ParseConstructor := Inl err\<rparr>) param = Panic (PanicError err)"
    by (simp add: executeConstructor_def Must_def)
next
  show "executeConstructor (lib\<lparr>ParseConstructor := Inr (\<lambda>param. Inl err)\<rparr>) param
       = Panic (PanicError err)"
    by (simp add: executeConstructor_def Must_def)
next
  show "executeOut (lib\<lparr>ParseOut := Inl err\<rparr>) opt pkg st = Panic (PanicError err)"
    by (rule executeOut_parse_failure)
next
  have "fmtImports (lib\<lparr>ParseOut := Inr (\<lambda>param. Inl err)\<rparr>) = fmtImports lib"
    by (rule fmtImports_cong) simp
  then show "executeOut (lib\<lparr>ParseOut := Inr (\<lambda>param. Inl err)\<rparr>) opt pkg st
       = bind (fmtImports lib (snd st)) (\<lambda>imports. Err err)"
    by (simp add: executeOut_def Must_def)
next
  show "snd (Run (lib\<lparr>ParseConstructor := Inl err\<rparr>) parseDir newWriter opts) = Panic (PanicError err)
      \<or> Run (lib\<lparr>ParseConstructor := Inl err\<rparr>) parseDir newWriter opts
          = Run lib parseDir newWriter opts"
    by (rule constructor_failure_panics) (simp_all add: executeConstructor_def Must_def)
next
  show "snd (Run (lib\<lparr>ParseConstructor := Inr (\<lambda>param. Inl err)\<rparr>) parseDir newWriter opts)
          = Panic (PanicError err)
      \<or> Run (lib\<lparr>ParseConstructor := Inr (\<lambda>param. Inl err)\<rparr>) parseDir newWriter opts
          = Run lib parseDir newWriter opts"
    by (rule constructor_failure_panics) (simp_all add: executeConstructor_def Must_def)
next
  show "snd (Run (lib\<lparr>ParseOut := Inl err\<rparr>) parseDir newWriter opts) = Panic (PanicError err)
      \<or> Run (lib\<lparr>ParseOut := Inl err\<rparr>) parseDir newWriter opts
          = Run lib parseDir newWriter opts"
    by (rule out_failure) (simp_all add: executeOut_parse_failure)
next
  have "snd (Run (lib\<lparr>ParseOut := Inr (\<lambda>param. Inl err)\<rparr>) parseDir newWriter opts) = Err err
      \<or> Run (lib\<lparr>ParseOut := Inr (\<lambda>param. Inl err)\<rparr>) parseDir newWriter opts
          = Run (lib\<lparr>ParseOut := Inr tmpl\<rparr>) parseDir newWriter opts"
  proof (rule out_failure)
    fix opt pkg st
    from executeOut_execute_failure[where lib = lib and err = err and opt = opt and pkg = pkg
        and st = st and tmpl = tmpl]
    show "(case executeOut (lib\<lparr>ParseOut := Inr (\<lambda>param. Inl err)\<rparr>) opt pkg st of
             Ok out \<Rightarrow> False | Err e \<Rightarrow> Err err = Err e | Panic p \<Rightarrow> Err err = Panic p)
          \<or> executeOut (lib\<lparr>ParseOut := Inr (\<lambda>param. Inl err)\<rparr>) opt pkg st
              = executeOut (lib\<lparr>ParseOut := Inr tmpl\<rparr>) opt pkg st
            \<and> (\<forall>out. executeOut (lib\<lparr>ParseOut := Inr tmpl\<rparr>) opt pkg st \<noteq> Ok out)"
      by auto
  qed simp_all
  then show "snd (Run (lib\<lparr>ParseOut := Inr (\<lambda>param. Inl err)\<rparr>) parseDir newWriter opts) = Err err
      \<or> Run (lib\<lparr>ParseOut := Inr (\<lambda>param. Inl err)\<rparr>) parseDir newWriter opts
          = Run (lib\<lparr>ParseOut := Inr tmpl\<rparr>) parseDir newWriter opts" .
qed

text \<open>
  Claim C4 as stated fails: when \<^verbatim>\<open>Execute\<close> of the template of the file fails, \<^verbatim>\<open>Run\<close>
  returns the error and does not panic.
\<close>

theorem out_execute_failure_counterexample:
  "snd (Run failingOutLib (Inr [fooPackage]) sampleWriter []) = Err (Error ''out: execute failed'')
   \<and> \<not> isPanic (snd (Run failingOutLib (Inr [fooPackage]) sampleWriter []))"
  by code_simp

text \<open>On the package \<^verbatim>\<open>foo\<close> each of the four calls is reached.\<close>

theorem template_failures_witness:
  "snd (Run (sampleLib\<lparr>ParseConstructor := Inl (Error ''parse'')\<rparr>) (Inr [fooPackage]) sampleWriter [])
     = Panic (PanicError (Error ''parse''))
   \<and> snd (Run (sampleLib\<lparr>ParseConstructor := Inr (\<lambda>param. Inl (Error ''parse''))\<rparr>)
            (Inr [fooPackage]) sampleWriter [])
     = Panic (PanicError (Error ''parse''))
   \<and> snd (Run (sampleLib\<lparr>ParseOut := Inl (Error ''parse'')\<rparr>) (Inr [fooPackage]) sampleWriter [])
     = Panic (PanicError (Error ''parse''))
   \<and> snd (Run (sampleLib\<lparr>ParseOut := Inr (\<lambda>param. Inl (Error ''parse''))\<rparr>)
            (Inr [fooPackage]) sampleWriter [])
     = Err (Error ''parse'')"
proof -
  have n1: "Run (sampleLib\<lparr>ParseConstructor := Inl (Error ''parse'')\<rparr>) (Inr [fooPackage]) sampleWriter []
      \<noteq> Run sampleLib (Inr [fooPackage]) sampleWriter []"
    by code_simp
  have n2: "Run (sampleLib\<lparr>ParseConstructor := Inr (\<lambda>param. Inl (Error ''parse''))\<rparr>)
        (Inr [fooPackage]) sampleWriter []
      \<noteq> Run sampleLib (Inr [fooPackage]) sampleWriter []"
    by code_simp
  have n3: "Run (sampleLib\<lparr>ParseOut := Inl (Error ''parse'')\<rparr>) (Inr [fooPackage]) sampleWriter []
      \<noteq> Run sampleLib (Inr [fooPackage]) sampleWriter []"
    by code_simp
  have n4: "Run (sampleLib\<lparr>ParseOut := Inr (\<lambda>param. Inl (Error ''parse''))\<rparr>)
        (Inr [fooPackage]) sampleWriter []
      \<noteq> Run (sampleLib\<lparr>ParseOut := Inr (\<lambda>p. Inr (outText p))\<rparr>) (Inr [fooPackage]) sampleWriter []"
    by code_simp
  from template_failures[where lib = sampleLib and err = "Error ''parse''"
      and parseDir = "Inr [fooPackage]" and newWriter = sampleWriter and opts = "[]"
      and tmpl = "\<lambda>p. Inr (outText p)"] n1 n2 n3 n4
  show ?thesis by blast
qed

section \<open>A failure of the printer\<close>

lemma forEach_append_Err:
  "forEach step xs s = Ok s' \<Longrightarrow> step x s' = Err e \<Longrightarrow> forEach step (xs @ x # ys) s = Err e"
  by (simp add: forEach_append)

lemma packagesLoop_append:
  "packagesLoop lib opt nw xs written = (written', Ok ()) \<Longrightarrow>
     packagesLoop lib opt nw (xs @ ys) written = packagesLoop lib opt nw ys written'"
proof (induction xs arbitrary: written)
  case Nil
  then show ?case by simp
next
  case (Cons pkg xs)
  show ?case
  proof (cases "genBody lib pkg")
    case body: (Ok st)
    show ?thesis
    proof (cases "length (fst st) = 0")
      case True
      with body Cons show ?thesis by simp
    next
      case False
      with body Cons show ?thesis
        by (cases "writePackage lib opt nw pkg st") simp_all
    qed
  next
    case (Err e)
    with Cons.prems show ?thesis by simp
  next
    case (Panic p)
    with Cons.prems show ?thesis by simp
  qed
qed

text \<open>
  Claim C6: the packages before \<open>pkg\<close> have been handled and \<^verbatim>\<open>Run\<close> would return no error
  for them; in \<open>pkg\<close> the files, declarations, specifications and fields before the field
  \<open>fld\<close> of a marked structure are handled without failure; \<open>fld\<close> has the key
  \<^verbatim>\<open>required\<close> and printing its type fails. Then \<^verbatim>\<open>Run\<close> returns that error, and what has
  been written is what was written for the packages before \<open>pkg\<close>: nothing for \<open>pkg\<close>,
  nothing for the packages after it.
\<close>

theorem print_failure_aborts:
  assumes "Run lib (Inr before) newWriter opts = (written, Ok ())"
    and "sortedFileList pkg = files1 @ f # files2"
    and "forEach (fileStep lib) files1 ([], []) = Ok st1"
    and "Decls f = decls1 @ GenDecl (Some comments) token_TYPE specs # decls2"
    and "forEach (declStep lib (Imports f)) decls1 st1 = Ok st2"
    and "scanDoc comments = (True, ptr)"
    and "specs = specs1 @ TypeSpec name (StructType flds) # specs2"
    and "forEach (specStep lib (Imports f) ptr) specs1 st2 = Ok st3"
    and "flds = flds1 @ fld # flds2"
    and "forEach (fieldStep lib (Imports f)) flds1 ([], snd st3) = Ok st4"
    and "requiredValue lib fld = Some v"
    and "Fprint lib (fieldType fld) = Inl err"
  shows "Run lib (Inr (before @ pkg # after)) newWriter opts = (written, Err err)"
proof -
  have "fieldStep lib (Imports f) fld st4 = Err err"
    using assms(11,12) by (simp add: fieldStep_def)
  with assms(10) have "forEach (fieldStep lib (Imports f)) flds ([], snd st3) = Err err"
    unfolding assms(9) by (rule forEach_append_Err)
  then have "specStep lib (Imports f) ptr (TypeSpec name (StructType flds)) st3 = Err err"
    by (simp add: specStep_def)
  with assms(8) have "forEach (specStep lib (Imports f) ptr) specs st2 = Err err"
    unfolding assms(7) by (rule forEach_append_Err)
  then have "declStep lib (Imports f) (GenDecl (Some comments) token_TYPE specs) st2 = Err err"
    using assms(6) by (simp add: declStep_def)
  with assms(5) have "fileStep lib f st1 = Err err"
    unfolding fileStep_def assms(4) by (rule forEach_append_Err)
  with assms(3) have "genBody lib pkg = Err err"
    unfolding genBody_def assms(2) by (rule forEach_append_Err)
  then have "packagesLoop lib opt newWriter (pkg # after) written = (written, Err err)" for opt
    by simp
  moreover have "packagesLoop lib opt newWriter before [] = (written, Ok ()) \<Longrightarrow>
      packagesLoop lib opt newWriter (before @ pkg # after) []
        = packagesLoop lib opt newWriter (pkg # after) written" for opt
    by (rule packagesLoop_append)
  ultimately show ?thesis
    using assms(1) by (simp add: Run_def Let_def)
qed

text \<open>
  The theorem on the packages \<^verbatim>\<open>ok\<close>, \<^verbatim>\<open>bad\<close> and \<^verbatim>\<open>foo\<close>, in that order, with a printer that
  fails on \<^verbatim>\<open>int\<close>: the file of \<^verbatim>\<open>ok\<close> is written, the field \<^verbatim>\<open>B int\<close> of \<^verbatim>\<open>bad\<close> stops the
  run, and nothing is written for \<^verbatim>\<open>bad\<close> and \<^verbatim>\<open>foo\<close>.
\<close>

theorem print_failure_aborts_witness:
  "Run failingPrintLib (Inr [okPackage]) sampleWriter [] = ([(''ok'', okOutput)], Ok ())
   \<and> sortedFileList badPackage = [emptyFile, badFile]
   \<and> forEach (fileStep failingPrintLib) [emptyFile] ([], []) = Ok ([], [])
   \<and> Decls badFile
       = [FuncDecl,
          GenDecl (Some [''//genconstructor'']) token_TYPE
            [TypeSpec ''Alias'' (Ident ''string''), TypeSpec ''Foo'' (StructType fooTaggedFields)]]
   \<and> forEach (declStep failingPrintLib (Imports badFile)) [FuncDecl] ([], []) = Ok ([], [])
   \<and> scanDoc [''//genconstructor''] = (True, False)
   \<and> forEach (specStep failingPrintLib (Imports badFile) False)
        [TypeSpec ''Alias'' (Ident ''string'')] ([], []) = Ok ([], [])
   \<and> fooTaggedFields = [fieldATagged, fieldB]
   \<and> forEach (fieldStep failingPrintLib (Imports badFile)) [fieldATagged] ([], [])
       = Ok ([\<lparr>Type = ''string'', Name = ''A'', ConstValue = []\<rparr>], [])
   \<and> requiredValue failingPrintLib fieldB = Some ''7''
   \<and> Fprint failingPrintLib (fieldType fieldB) = Inl (Error ''print failed'')
   \<and> Run failingPrintLib (Inr [okPackage, badPackage, fooPackage]) sampleWriter []
       = ([(''ok'', okOutput)], Err (Error ''print failed''))"
proof -
  have h1: "Run failingPrintLib (Inr [okPackage]) sampleWriter [] = ([(''ok'', okOutput)], Ok ())"
    by code_simp
  have h2: "sortedFileList badPackage = [emptyFile] @ badFile # []"
    by code_simp
  have h3: "forEach (fileStep failingPrintLib) [emptyFile] ([], []) = Ok ([], [])"
    by code_simp
  have h4: "Decls badFile
       = [FuncDecl]
         @ GenDecl (Some [''//genconstructor'']) token_TYPE
             ([TypeSpec ''Alias'' (Ident ''string'')]
              @ TypeSpec ''Foo'' (StructType fooTaggedFields) # []) # []"
    by (simp add: badFile_def)
  have h5: "forEach (declStep failingPrintLib (Imports badFile)) [FuncDecl] ([], []) = Ok ([], [])"
    by code_simp
  have h6: "scanDoc [''//genconstructor''] = (True, False)"
    by code_simp
  have h8: "forEach (specStep failingPrintLib (Imports badFile) False)
        [TypeSpec ''Alias'' (Ident ''string'')] ([], []) = Ok ([], [])"
    by code_simp
  have h9: "fooTaggedFields = [fieldATagged] @ fieldB # []"
    by (simp add: fooTaggedFields_def)
  have h10: "forEach (fieldStep failingPrintLib (Imports badFile)) [fieldATagged] ([], snd ([], []))
       = Ok ([\<lparr>Type = ''string'', Name = ''A'', ConstValue = []\<rparr>], [])"
    by code_simp
  have h11: "requiredValue failingPrintLib fieldB = Some ''7''"
    by code_simp
  have h12: "Fprint failingPrintLib (fieldType fieldB) = Inl (Error ''print failed'')"
    by code_simp
  from print_failure_aborts[OF h1 h2 h3 h4 h5 h6 refl h8 h9 h10 h11 h12, of "[fooPackage]"]
    h1 h2 h3 h4 h5 h6 h8 h9 h10 h11 h12
  show ?thesis
    by simp
qed

end
